theory Spec2Isabelle
  imports Complex_Main
begin

section \<open>Enumerations\<close>

text \<open>
  The three enumerations of \<^verbatim>\<open>gameObjects/enums\<close>. Their member names are the ones
  \<^verbatim>\<open>game.js\<close> uses; \<^verbatim>\<open>updateGameConfig\<close> compares its selector with the five
  members of \<^verbatim>\<open>GameProp\<close> and sends every other value to the \<^verbatim>\<open>default\<close> branch,
  so the selector type has one more constructor for "any other value".
\<close>

datatype Role = NONE | P1 | P2

datatype GameState = READY | PREPARING | ONGOING | FINISHED

datatype GameProp =
    SIZE | WIN_LENGTH | IS_LIMITED_PIECES | NUM_PIECES | IS_FIFO_ORDER
  | OTHER_PROP string

section \<open>The Board collaborator\<close>

text \<open>
  Modelled from the spec: \<^verbatim>\<open>models/board.js\<close> is not among the sources. The spec gives
  the Board as a capability: place a mark at a coordinate if and only if the cell is empty
  and in bounds; report whether any empty cell remains; resize the grid; clear all cells;
  report the size. An empty cell holds \<open>NONE\<close>; the resized grid is a fresh, empty one, so
  no mark ever lies outside the grid.
\<close>

record Board =
  sizeX :: int
  sizeY :: int
  cells :: "int \<times> int \<Rightarrow> Role"

definition newBoard :: "int \<Rightarrow> int \<Rightarrow> Board" where
  "newBoard bx by = \<lparr>sizeX = bx, sizeY = by, cells = (\<lambda>_. NONE)\<rparr>"

definition getSize :: "Board \<Rightarrow> int \<times> int" where
  "getSize b = (sizeX b, sizeY b)"

definition inBounds :: "Board \<Rightarrow> int \<Rightarrow> int \<Rightarrow> bool" where
  "inBounds b px py = (0 \<le> px \<and> px < sizeX b \<and> 0 \<le> py \<and> py < sizeY b)"

definition placeMark :: "Board \<Rightarrow> int \<Rightarrow> int \<Rightarrow> Role \<Rightarrow> bool \<times> Board" where
  "placeMark b px py r =
     (if inBounds b px py \<and> cells b (px, py) = NONE
      then (True, b\<lparr>cells := (cells b)((px, py) := r)\<rparr>)
      else (False, b))"

definition coords :: "Board \<Rightarrow> (int \<times> int) list" where
  "coords b = concat (map (\<lambda>px. map (\<lambda>py. (px, py)) [0..sizeY b - 1]) [0..sizeX b - 1])"

definition hasPlayableSquares :: "Board \<Rightarrow> bool" where
  "hasPlayableSquares b = list_ex (\<lambda>p. cells b p = NONE) (coords b)"

definition resetBoard :: "Board \<Rightarrow> Board" where
  "resetBoard b = b\<lparr>cells := (\<lambda>_. NONE)\<rparr>"

definition updateSize :: "Board \<Rightarrow> int \<Rightarrow> int \<Rightarrow> Board" where
  "updateSize b bx by = b\<lparr>sizeX := bx, sizeY := by, cells := (\<lambda>_. NONE)\<rparr>"

section \<open>The Player collaborator\<close>

text \<open>
  Modelled from the spec: \<^verbatim>\<open>models/player.js\<close> is not among the sources. The spec gives
  the Player as a capability: record a move, clear the move history, accumulate score, reset
  the score; it holds \<open>role\<close>, \<open>score\<close> and \<open>moveHistory\<close>. The constructor call
  \<^verbatim>\<open>new Player('Player 1', 'X', Role.P1)\<close> of \<^verbatim>\<open>game.js\<close> gives the other two fields.
  Scores are sums of the amounts \<open>1\<close> and \<open>0.5\<close> that \<^verbatim>\<open>game.js\<close> awards, which
  JavaScript numbers add exactly; they are rationals here.
\<close>

record Player =
  name :: string
  symbol :: string
  role :: Role
  score :: rat
  moveHistory :: "(int \<times> int) list"

definition newPlayer :: "string \<Rightarrow> string \<Rightarrow> Role \<Rightarrow> Player" where
  "newPlayer n s r = \<lparr>name = n, symbol = s, role = r, score = 0, moveHistory = []\<rparr>"

definition updatePlayerMove :: "int \<Rightarrow> int \<Rightarrow> Player \<Rightarrow> Player" where
  "updatePlayerMove px py p = p\<lparr>moveHistory := moveHistory p @ [(px, py)]\<rparr>"

definition resetPlayerMoveHistory :: "Player \<Rightarrow> Player" where
  "resetPlayerMoveHistory p = p\<lparr>moveHistory := []\<rparr>"

definition addScore :: "rat \<Rightarrow> Player \<Rightarrow> Player" where
  "addScore amount p = p\<lparr>score := score p + amount\<rparr>"

definition resetScore :: "Player \<Rightarrow> Player" where
  "resetScore p = p\<lparr>score := 0\<rparr>"

section \<open>The Game object\<close>

text \<open>
  \<^verbatim>\<open>currentPlayer\<close> and \<^verbatim>\<open>firstTurnPlayer\<close> are references to one of the two Player
  objects the Game owns, so they are a tag that is resolved against \<open>player1\<close> and
  \<open>player2\<close>: a change made through the reference is a change of the owned object.

  The field \<^verbatim>\<open>winner\<close> is assigned \<^verbatim>\<open>Role.NONE\<close> in the constructor, in \<^verbatim>\<open>readyGame\<close>
  and in the draw branch, and \<^verbatim>\<open>this.currentPlayer\<close> in the win branch of
  \<^verbatim>\<open>updateGameStateByLastMove\<close>: it holds either a Role or a reference to a Player.
\<close>

datatype PlayerRef = PLAYER1 | PLAYER2

datatype WinnerValue = RoleValue Role | PlayerObject PlayerRef

record Game =
  winLength :: int
  isLimitedPieces :: bool
  numPieces :: int
  isFifoOrder :: bool
  board :: Board
  player1 :: Player
  player2 :: Player
  currentPlayer :: PlayerRef
  winner :: WinnerValue
  winCells :: "(int \<times> int) list"
  firstTurnPlayer :: PlayerRef
  totalGamesPlayed :: int
  state :: GameState

text \<open>
  The constructor. Its default arguments come from \<^verbatim>\<open>data/GameConfig.js\<close>, which is not
  among the sources, so all five arguments are explicit.
\<close>

definition newGame :: "int \<Rightarrow> int \<Rightarrow> int \<Rightarrow> int \<Rightarrow> bool \<Rightarrow> Game" where
  "newGame boardSizeX boardSizeY wl np fifo =
     \<lparr>winLength = wl,
      isLimitedPieces = False,
      numPieces = np,
      isFifoOrder = fifo,
      board = newBoard boardSizeX boardSizeY,
      player1 = newPlayer ''Player 1'' ''X'' P1,
      player2 = newPlayer ''Player 2'' ''O'' P2,
      currentPlayer = PLAYER1,
      winner = RoleValue NONE,
      winCells = [],
      firstTurnPlayer = PLAYER1,
      totalGamesPlayed = 0,
      state = READY\<rparr>"

definition getPlayer :: "Game \<Rightarrow> PlayerRef \<Rightarrow> Player" where
  "getPlayer g r = (case r of PLAYER1 \<Rightarrow> player1 g | PLAYER2 \<Rightarrow> player2 g)"

definition onPlayer :: "PlayerRef \<Rightarrow> (Player \<Rightarrow> Player) \<Rightarrow> Game \<Rightarrow> Game" where
  "onPlayer r f g =
     (case r of
        PLAYER1 \<Rightarrow> g\<lparr>player1 := f (player1 g)\<rparr>
      | PLAYER2 \<Rightarrow> g\<lparr>player2 := f (player2 g)\<rparr>)"

definition getCurrentPlayer :: "Game \<Rightarrow> Player" where
  "getCurrentPlayer g = getPlayer g (currentPlayer g)"

subsection \<open>Configuration\<close>

text \<open>
  The argument bag of \<^verbatim>\<open>updateGameConfig\<close>: each setter reads its own keys
  (\<^verbatim>\<open>arg['x']\<close>, \<^verbatim>\<open>arg['y']\<close>, \<^verbatim>\<open>arg['len']\<close>, \<^verbatim>\<open>arg['isLimited']\<close>,
  \<^verbatim>\<open>arg['num']\<close>, \<^verbatim>\<open>arg['isFifo']\<close>), typed as the setters' doc comments type them.
\<close>

record Arg =
  arg_x :: int
  arg_y :: int
  arg_len :: int
  arg_isLimited :: bool
  arg_num :: int
  arg_isFifo :: bool

text \<open>
  The setter \<^verbatim>\<open>numPieces\<close> calls \<^verbatim>\<open>game.updateNumPiecesEachPlayer(num)\<close>: the receiver
  is the identifier \<^verbatim>\<open>game\<close>, not \<^verbatim>\<open>this\<close>. The module \<^verbatim>\<open>game.js\<close> neither declares
  nor imports a \<^verbatim>\<open>game\<close>, so the identifier is looked up in the global scope of the
  program that loads the module. \<open>GameBinding\<close> is what that lookup finds: nothing (the
  call throws a ReferenceError), this very Game, another Game, or a value without the
  method (the call throws a TypeError).
\<close>

datatype GameBinding = NotDefined | ThisGame | AnotherGame | NotAGame

datatype JSError = ReferenceError | TypeError

definition updateNumPiecesEachPlayer :: "int \<Rightarrow> Game \<Rightarrow> Game" where
  "updateNumPiecesEachPlayer num g =
     (if state g \<noteq> ONGOING then g\<lparr>numPieces := num\<rparr> else g)"

definition updateProp_size :: "int \<Rightarrow> int \<Rightarrow> Game \<Rightarrow> bool \<times> Game" where
  "updateProp_size bx by g =
     (let g1 = g\<lparr>board := updateSize (board g) bx by\<rparr>;
          g2 = (if bx < winLength g1 \<or> by < winLength g1
                then g1\<lparr>winLength := (if bx < by then bx else by)\<rparr>
                else g1)
      in (True, g2))"

definition updateProp_winLength :: "int \<Rightarrow> Game \<Rightarrow> bool \<times> Game" where
  "updateProp_winLength len g =
     (if fst (getSize (board g)) \<ge> len \<or> snd (getSize (board g)) \<ge> len
      then (True, g\<lparr>winLength := len\<rparr>)
      else (False, g))"

definition updateProp_isLimitedPieces :: "bool \<Rightarrow> Game \<Rightarrow> bool \<times> Game" where
  "updateProp_isLimitedPieces isLimited g = (True, g\<lparr>isLimitedPieces := isLimited\<rparr>)"

definition updateProp_numPieces :: "GameBinding \<Rightarrow> int \<Rightarrow> Game \<Rightarrow> JSError + bool \<times> Game" where
  "updateProp_numPieces env num g =
     (if fst (getSize (board g)) * snd (getSize (board g)) \<ge> num
      then (case env of
              NotDefined \<Rightarrow> Inl ReferenceError
            | ThisGame \<Rightarrow> Inr (True, updateNumPiecesEachPlayer num g)
            | AnotherGame \<Rightarrow> Inr (True, g)
            | NotAGame \<Rightarrow> Inl TypeError)
      else Inr (False, g))"

definition updateProp_isFifoOrder :: "bool \<Rightarrow> Game \<Rightarrow> bool \<times> Game" where
  "updateProp_isFifoOrder isFifo g = (True, g\<lparr>isFifoOrder := isFifo\<rparr>)"

definition isDuringMatch :: "Game \<Rightarrow> bool" where
  "isDuringMatch g =
     (if state g \<noteq> ONGOING \<and> totalGamesPlayed g \<le> 0 then False else True)"

definition updateGameConfig ::
  "GameBinding \<Rightarrow> GameProp \<Rightarrow> Arg \<Rightarrow> Game \<Rightarrow> JSError + bool \<times> Game" where
  "updateGameConfig env prop arg g =
     (if state g \<noteq> ONGOING \<and> totalGamesPlayed g \<le> 0
      then (case prop of
              SIZE \<Rightarrow> Inr (updateProp_size (arg_x arg) (arg_y arg) g)
            | WIN_LENGTH \<Rightarrow> Inr (updateProp_winLength (arg_len arg) g)
            | IS_LIMITED_PIECES \<Rightarrow> Inr (updateProp_isLimitedPieces (arg_isLimited arg) g)
            | NUM_PIECES \<Rightarrow> updateProp_numPieces env (arg_num arg) g
            | IS_FIFO_ORDER \<Rightarrow> Inr (updateProp_isFifoOrder (arg_isFifo arg) g)
            | OTHER_PROP _ \<Rightarrow> Inr (False, g))
      else Inr (False, g))"

text \<open>An argument bag with every key present, for the examples.\<close>

definition bag :: "Arg" where
  "bag = \<lparr>arg_x = 3, arg_y = 3, arg_len = 3, arg_isLimited = True, arg_num = 4,
          arg_isFifo = True\<rparr>"

subsection \<open>Match and game lifecycle\<close>

definition readyGame :: "Game \<Rightarrow> Game" where
  "readyGame g =
     (let g1 = g\<lparr>state := PREPARING\<rparr>;
          g2 = g1\<lparr>board := resetBoard (board g1)\<rparr>;
          g3 = g2\<lparr>currentPlayer := firstTurnPlayer g2\<rparr>;
          g4 = onPlayer (currentPlayer g3) resetPlayerMoveHistory g3;
          g5 = g4\<lparr>winner := RoleValue NONE\<rparr>;
          g6 = g5\<lparr>winCells := []\<rparr>
      in g6\<lparr>state := READY\<rparr>)"

definition resetMatch :: "PlayerRef \<Rightarrow> Game \<Rightarrow> Game" where
  "resetMatch ftp g =
     (let g1 = g\<lparr>player1 := resetScore (player1 g)\<rparr>;
          g2 = g1\<lparr>player2 := resetScore (player2 g1)\<rparr>;
          g3 = g2\<lparr>firstTurnPlayer := ftp\<rparr>;
          g4 = g3\<lparr>totalGamesPlayed := 0\<rparr>
      in readyGame g4)"

definition startGame :: "Game \<Rightarrow> Game" where
  "startGame g = g\<lparr>state := ONGOING\<rparr>"

definition swapTurns :: "Game \<Rightarrow> PlayerRef \<times> Game" where
  "swapTurns g =
     (let p = (if currentPlayer g = PLAYER1 then PLAYER2 else PLAYER1)
      in (p, g\<lparr>currentPlayer := p\<rparr>))"

definition swapFirstTurn :: "Game \<Rightarrow> PlayerRef \<times> Game" where
  "swapFirstTurn g =
     (let p = (if firstTurnPlayer g = PLAYER1 then PLAYER2 else PLAYER1)
      in (p, g\<lparr>firstTurnPlayer := p\<rparr>))"

definition nextGame :: "Game \<Rightarrow> Game" where
  "nextGame g = readyGame (snd (swapFirstTurn g))"

subsection \<open>Moves and outcomes\<close>

text \<open>
  The line detector \<^verbatim>\<open>winnerCheckingSlidingWindow\<close> is imported from
  \<^verbatim>\<open>utils/winnerCheck.js\<close>, which is not among the sources, so the operations that call it
  take it as a parameter. It gets the cells, a role, a coordinate and the line length and
  returns an array of coordinates or \<^verbatim>\<open>false\<close>; the caller tests the result for
  truthiness, and every array is truthy.
\<close>

type_synonym Detector =
  "(int \<times> int \<Rightarrow> Role) \<Rightarrow> Role \<Rightarrow> int \<Rightarrow> int \<Rightarrow> int \<Rightarrow> (int \<times> int) list option"

definition checkWinner :: "Detector \<Rightarrow> int \<Rightarrow> int \<Rightarrow> Game \<Rightarrow> (int \<times> int) list option" where
  "checkWinner detect px py g =
     detect (cells (board g)) (role (getCurrentPlayer g)) px py (winLength g)"

definition checkValidMoves :: "Game \<Rightarrow> bool" where
  "checkValidMoves g = hasPlayableSquares (board g)"

definition updateGameStateByLastMove :: "Detector \<Rightarrow> int \<Rightarrow> int \<Rightarrow> Game \<Rightarrow> Game" where
  "updateGameStateByLastMove detect posX posY g =
     (case checkWinner detect posX posY g of
        Some line \<Rightarrow>
          (let g1 = g\<lparr>winner := PlayerObject (currentPlayer g)\<rparr>;
               g2 = g1\<lparr>winCells := line\<rparr>;
               g3 = onPlayer (currentPlayer g2) (addScore 1) g2;
               g4 = g3\<lparr>totalGamesPlayed := totalGamesPlayed g3 + 1\<rparr>
           in g4\<lparr>state := FINISHED\<rparr>)
      | None \<Rightarrow>
          (if checkValidMoves g
           then (snd (swapTurns g))\<lparr>state := ONGOING\<rparr>
           else
             (let g1 = g\<lparr>winner := RoleValue NONE\<rparr>;
                  g2 = g1\<lparr>player1 := addScore (1 / 2) (player1 g1)\<rparr>;
                  g3 = g2\<lparr>player2 := addScore (1 / 2) (player2 g2)\<rparr>;
                  g4 = g3\<lparr>totalGamesPlayed := totalGamesPlayed g3 + 1\<rparr>
              in g4\<lparr>state := FINISHED\<rparr>)))"

text \<open>
  \<^verbatim>\<open>playerMakeMove\<close> also writes the cells and both move histories to the console; the
  console is not part of the Game and is left out.
\<close>

definition playerMakeMove :: "int \<Rightarrow> int \<Rightarrow> Game \<Rightarrow> bool \<times> Game" where
  "playerMakeMove px py g =
     (if state g \<noteq> ONGOING then (False, g)
      else
        (let placed = placeMark (board g) px py (role (getCurrentPlayer g));
             g1 = g\<lparr>board := snd placed\<rparr>
         in if fst placed
            then (True, onPlayer (currentPlayer g1) (updatePlayerMove px py) g1)
            else (False, g1)))"

definition getMatchLeadingPlayer :: "Game \<Rightarrow> Role" where
  "getMatchLeadingPlayer g =
     (if score (player1 g) > score (player2 g) then role (player1 g)
      else if score (player2 g) > score (player1 g) then role (player2 g)
      else NONE)"

subsection \<open>A line detector for the scenarios\<close>

text \<open>
  Modelled from the spec: \<^verbatim>\<open>utils/winnerCheck.js\<close> is not among the sources. The spec
  gives the detector as a function that returns the coordinates of a winning line through
  the given point, or signals that there is none; a winning line is a contiguous run of
  cells, of the required length, all owned by the same role, along an axis-aligned or
  diagonal direction. The windows of that length through the point are tried direction by
  direction, and the first one the role owns is returned, in the order of the direction.
\<close>

definition directions :: "(int \<times> int) list" where
  "directions = [(0, 1), (1, 0), (1, 1), (1, -1)]"

definition window :: "int \<Rightarrow> int \<Rightarrow> int \<Rightarrow> int \<times> int \<Rightarrow> int \<Rightarrow> (int \<times> int) list" where
  "window px py n d k = map (\<lambda>i. (px + (i - k) * fst d, py + (i - k) * snd d)) [0..n - 1]"

definition windows :: "int \<Rightarrow> int \<Rightarrow> int \<Rightarrow> (int \<times> int) list list" where
  "windows px py n = concat (map (\<lambda>d. map (window px py n d) [0..n - 1]) directions)"

definition winnerCheckingSlidingWindow :: Detector where
  "winnerCheckingSlidingWindow cs r px py n =
     find (\<lambda>w. list_all (\<lambda>p. cs p = r) w) (windows px py n)"

subsection \<open>Sequences of operations\<close>

text \<open>
  The operations a caller has on a Game, and the Game each leaves behind: the methods of
  the class that change it, among them the five setters of the object \<^verbatim>\<open>updateProp()\<close>
  returns, which a caller can reach without going through \<^verbatim>\<open>updateGameConfig\<close> and its
  gate. The one setter that can throw is \<^verbatim>\<open>numPieces\<close>, and it throws before anything is
  assigned, so the Game it leaves behind is the one it found.
\<close>

datatype Op =
    OpUpdateGameConfig GameProp Arg
  | OpUpdateNumPiecesEachPlayer int
  | OpReadyGame
  | OpResetMatch PlayerRef
  | OpStartGame
  | OpNextGame
  | OpUpdateGameStateByLastMove int int
  | OpPlayerMakeMove int int
  | OpSwapTurns
  | OpSwapFirstTurn
  | OpUpdateProp_size int int
  | OpUpdateProp_winLength int
  | OpUpdateProp_isLimitedPieces bool
  | OpUpdateProp_numPieces int
  | OpUpdateProp_isFifoOrder bool

fun exec :: "GameBinding \<Rightarrow> Detector \<Rightarrow> Op \<Rightarrow> Game \<Rightarrow> Game" where
  "exec env detect (OpUpdateGameConfig prop arg) g =
     (case updateGameConfig env prop arg g of Inl _ \<Rightarrow> g | Inr (_, g') \<Rightarrow> g')"
| "exec env detect (OpUpdateNumPiecesEachPlayer num) g = updateNumPiecesEachPlayer num g"
| "exec env detect OpReadyGame g = readyGame g"
| "exec env detect (OpResetMatch ftp) g = resetMatch ftp g"
| "exec env detect OpStartGame g = startGame g"
| "exec env detect OpNextGame g = nextGame g"
| "exec env detect (OpUpdateGameStateByLastMove px py) g = updateGameStateByLastMove detect px py g"
| "exec env detect (OpPlayerMakeMove px py) g = snd (playerMakeMove px py g)"
| "exec env detect OpSwapTurns g = snd (swapTurns g)"
| "exec env detect OpSwapFirstTurn g = snd (swapFirstTurn g)"
| "exec env detect (OpUpdateProp_size bx by) g = snd (updateProp_size bx by g)"
| "exec env detect (OpUpdateProp_winLength len) g = snd (updateProp_winLength len g)"
| "exec env detect (OpUpdateProp_isLimitedPieces isLimited) g =
     snd (updateProp_isLimitedPieces isLimited g)"
| "exec env detect (OpUpdateProp_numPieces num) g =
     (case updateProp_numPieces env num g of Inl _ \<Rightarrow> g | Inr (_, g') \<Rightarrow> g')"
| "exec env detect (OpUpdateProp_isFifoOrder isFifo) g = snd (updateProp_isFifoOrder isFifo g)"

fun run :: "GameBinding \<Rightarrow> Detector \<Rightarrow> Op list \<Rightarrow> Game \<Rightarrow> Game" where
  "run env detect [] g = g"
| "run env detect (op # ops) g = run env detect ops (exec env detect op g)"

definition fitsBothDimensions :: "Game \<Rightarrow> bool" where
  "fitsBothDimensions g = (winLength g \<le> min (sizeX (board g)) (sizeY (board g)))"

definition fitsOneDimension :: "Game \<Rightarrow> bool" where
  "fitsOneDimension g = (winLength g \<le> max (sizeX (board g)) (sizeY (board g)))"

text \<open>
  The one kind of step that takes \<open>winLength\<close> above the smaller board dimension: a
  \<open>winLength\<close> update that is applied (through \<^verbatim>\<open>updateGameConfig\<close> only when the gate is
  open) with a length above the smaller dimension; the setter applies it only if the
  length is at most the larger one. \<open>neverRaises\<close> says that no step of a sequence run
  from a Game is of that kind in the Game it is run on.
\<close>

definition between :: "int \<Rightarrow> Game \<Rightarrow> bool" where
  "between len g =
     (min (sizeX (board g)) (sizeY (board g)) < len
      \<and> len \<le> max (sizeX (board g)) (sizeY (board g)))"

fun raisesWinLength :: "Op \<Rightarrow> Game \<Rightarrow> bool" where
  "raisesWinLength (OpUpdateGameConfig WIN_LENGTH arg) g =
     (state g \<noteq> ONGOING \<and> totalGamesPlayed g \<le> 0 \<and> between (arg_len arg) g)"
| "raisesWinLength (OpUpdateProp_winLength len) g = between len g"
| "raisesWinLength _ g = False"

fun neverRaises :: "GameBinding \<Rightarrow> Detector \<Rightarrow> Op list \<Rightarrow> Game \<Rightarrow> bool" where
  "neverRaises env detect [] g = True"
| "neverRaises env detect (op # ops) g =
     (\<not> raisesWinLength op g \<and> neverRaises env detect ops (exec env detect op g))"

subsection \<open>Two games played out\<close>

text \<open>
  Scenario A: on a 3 by 3 board with a winning length of 3, player 1 places at (0,0), (0,1)
  and (0,2) while player 2 places at (1,0) and (1,1); every move is followed by the update
  for that move. \<open>scenarioA_last\<close> is the Game after player 1's third move and before its
  update, \<open>scenarioA\<close> the Game after that update.
\<close>

definition scenarioA_last :: Game where
  "scenarioA_last =
     run NotDefined winnerCheckingSlidingWindow
       [OpStartGame,
        OpPlayerMakeMove 0 0, OpUpdateGameStateByLastMove 0 0,
        OpPlayerMakeMove 1 0, OpUpdateGameStateByLastMove 1 0,
        OpPlayerMakeMove 0 1, OpUpdateGameStateByLastMove 0 1,
        OpPlayerMakeMove 1 1, OpUpdateGameStateByLastMove 1 1,
        OpPlayerMakeMove 0 2]
       (newGame 3 3 3 3 True)"

definition scenarioA :: Game where
  "scenarioA = updateGameStateByLastMove winnerCheckingSlidingWindow 0 2 scenarioA_last"

text \<open>
  Scenario B: the same board filled with no three in a row for either role. Player 1
  places at (0,0), (0,2), (1,0), (2,1) and (2,2), player 2 at (0,1), (1,1), (1,2) and (2,0).
  \<open>scenarioB_last\<close> is the Game after the ninth move and before its update.
\<close>

definition scenarioB_last :: Game where
  "scenarioB_last =
     run NotDefined winnerCheckingSlidingWindow
       [OpStartGame,
        OpPlayerMakeMove 0 0, OpUpdateGameStateByLastMove 0 0,
        OpPlayerMakeMove 0 1, OpUpdateGameStateByLastMove 0 1,
        OpPlayerMakeMove 0 2, OpUpdateGameStateByLastMove 0 2,
        OpPlayerMakeMove 1 1, OpUpdateGameStateByLastMove 1 1,
        OpPlayerMakeMove 1 0, OpUpdateGameStateByLastMove 1 0,
        OpPlayerMakeMove 1 2, OpUpdateGameStateByLastMove 1 2,
        OpPlayerMakeMove 2 1, OpUpdateGameStateByLastMove 2 1,
        OpPlayerMakeMove 2 0, OpUpdateGameStateByLastMove 2 0,
        OpPlayerMakeMove 2 2]
       (newGame 3 3 3 3 True)"

text \<open>A Game in play after one move of player 1, before the update for that move.\<close>

definition opening_last :: Game where
  "opening_last = snd (playerMakeMove 1 1 (startGame (newGame 3 3 3 3 True)))"

section \<open>The collaborators' contracts\<close>

text \<open>
  What the Board model promises, in the spec's words: a square is playable exactly when
  some cell inside the grid is empty, and a placement is rejected exactly when the cell is
  outside the grid or occupied, in which case the Board is left as it was.
\<close>

lemma hasPlayableSquares_iff:
  "hasPlayableSquares b \<longleftrightarrow> (\<exists>px py. inBounds b px py \<and> cells b (px, py) = NONE)"
proof
  assume "hasPlayableSquares b"
  then obtain px py where "px \<in> {0..sizeX b - 1}" "py \<in> {0..sizeY b - 1}" "cells b (px, py) = NONE"
    by (auto simp: hasPlayableSquares_def coords_def list_ex_iff)
  then have "inBounds b px py \<and> cells b (px, py) = NONE"
    by (simp add: inBounds_def)
  then show "\<exists>px py. inBounds b px py \<and> cells b (px, py) = NONE" by blast
next
  assume "\<exists>px py. inBounds b px py \<and> cells b (px, py) = NONE"
  then obtain px py where h: "inBounds b px py" "cells b (px, py) = NONE" by blast
  then have "px \<in> {0..sizeX b - 1}" "py \<in> {0..sizeY b - 1}"
    by (simp_all add: inBounds_def)
  with h(2) have "\<exists>x\<in>{0..sizeX b - 1}. \<exists>y\<in>{0..sizeY b - 1}. cells b (x, y) = NONE"
    by blast
  then show "hasPlayableSquares b"
    by (simp add: hasPlayableSquares_def coords_def list_ex_iff)
qed

lemma placeMark_rejects_iff:
  "\<not> fst (placeMark b px py r) \<longleftrightarrow> \<not> inBounds b px py \<or> cells b (px, py) \<noteq> NONE"
  by (simp add: placeMark_def)

lemma placeMark_rejected_unchanged:
  "\<not> fst (placeMark b px py r) \<Longrightarrow> snd (placeMark b px py r) = b"
  by (auto simp: placeMark_def)

lemma placeMark_size:
  "sizeX (snd (placeMark b px py r)) = sizeX b \<and> sizeY (snd (placeMark b px py r)) = sizeY b"
  by (simp add: placeMark_def)

section \<open>The configuration gate\<close>

text \<open>
  Claim C1. A call of \<open>updateGameConfig\<close> made while the state is \<open>ONGOING\<close> or
  \<open>totalGamesPlayed\<close> is positive returns false and leaves the whole Game as it was, for
  every selector and argument bag; and a selector that is none of the five known ones
  returns false and leaves the Game as it was even when the gate is open.
\<close>

theorem updateGameConfig_gate:
  "(state g = ONGOING \<or> totalGamesPlayed g > 0
      \<longrightarrow> updateGameConfig env prop arg g = Inr (False, g))
   \<and> updateGameConfig env (OTHER_PROP s) arg g = Inr (False, g)"
  by (auto simp: updateGameConfig_def)

theorem updateGameConfig_gate_witness:
  "state (startGame (newGame 3 3 3 3 True)) = ONGOING
   \<and> updateGameConfig NotDefined SIZE bag (startGame (newGame 3 3 3 3 True))
       = Inr (False, startGame (newGame 3 3 3 3 True))
   \<and> totalGamesPlayed scenarioA > 0
   \<and> updateGameConfig NotDefined NUM_PIECES bag scenarioA = Inr (False, scenarioA)
   \<and> updateGameConfig NotDefined (OTHER_PROP ''COLOR'') bag (newGame 3 3 3 3 True)
       = Inr (False, newGame 3 3 3 3 True)"
proof -
  have h1: "state (startGame (newGame 3 3 3 3 True)) = ONGOING" by code_simp
  have h2: "totalGamesPlayed scenarioA > 0" by code_simp
  show ?thesis
    using h1 h2
      updateGameConfig_gate [of "startGame (newGame 3 3 3 3 True)" NotDefined SIZE bag]
      updateGameConfig_gate [of scenarioA NotDefined NUM_PIECES bag]
      updateGameConfig_gate [of "newGame 3 3 3 3 True" NotDefined _ bag "''COLOR''"]
    by blast
qed

section \<open>Configuration updates\<close>

text \<open>
  Claim C5. When the gate is open (the state is not \<open>ONGOING\<close> and no game of the match
  has been completed), \<open>updateGameConfig\<close> with the selector \<open>WIN_LENGTH\<close> and the
  length \<open>len\<close> returns true and sets \<open>winLength\<close> to \<open>len\<close> if one of the two board
  dimensions is at least \<open>len\<close>, and otherwise returns false and leaves the Game as it was.
  The two cases are complementary, so the update is applied if and only if one dimension
  accommodates the length. On a 4 by 4 board the length 5 is rejected.
\<close>

theorem updateGameConfig_winLength:
  assumes "state g \<noteq> ONGOING" and "totalGamesPlayed g \<le> 0"
  shows "(sizeX (board g) \<ge> arg_len arg \<or> sizeY (board g) \<ge> arg_len arg
            \<longrightarrow> updateGameConfig env WIN_LENGTH arg g = Inr (True, g\<lparr>winLength := arg_len arg\<rparr>))
         \<and> (\<not> (sizeX (board g) \<ge> arg_len arg \<or> sizeY (board g) \<ge> arg_len arg)
            \<longrightarrow> updateGameConfig env WIN_LENGTH arg g = Inr (False, g))"
  using assms by (simp add: updateGameConfig_def updateProp_winLength_def getSize_def)

theorem updateGameConfig_winLength_witness:
  "state (newGame 4 4 3 3 True) \<noteq> ONGOING
   \<and> totalGamesPlayed (newGame 4 4 3 3 True) \<le> 0
   \<and> \<not> (sizeX (board (newGame 4 4 3 3 True)) \<ge> arg_len (bag\<lparr>arg_len := 5\<rparr>)
        \<or> sizeY (board (newGame 4 4 3 3 True)) \<ge> arg_len (bag\<lparr>arg_len := 5\<rparr>))
   \<and> updateGameConfig NotDefined WIN_LENGTH (bag\<lparr>arg_len := 5\<rparr>) (newGame 4 4 3 3 True)
       = Inr (False, newGame 4 4 3 3 True)
   \<and> winLength (newGame 4 4 3 3 True) = 3
   \<and> sizeX (board (newGame 4 4 3 3 True)) \<ge> arg_len (bag\<lparr>arg_len := 4\<rparr>)
   \<and> updateGameConfig NotDefined WIN_LENGTH (bag\<lparr>arg_len := 4\<rparr>) (newGame 4 4 3 3 True)
       = Inr (True, (newGame 4 4 3 3 True)\<lparr>winLength := arg_len (bag\<lparr>arg_len := 4\<rparr>)\<rparr>)"
proof -
  have h1: "state (newGame 4 4 3 3 True) \<noteq> ONGOING" by code_simp
  have h2: "totalGamesPlayed (newGame 4 4 3 3 True) \<le> 0" by code_simp
  have h3: "\<not> (sizeX (board (newGame 4 4 3 3 True)) \<ge> arg_len (bag\<lparr>arg_len := 5\<rparr>)
        \<or> sizeY (board (newGame 4 4 3 3 True)) \<ge> arg_len (bag\<lparr>arg_len := 5\<rparr>))" by code_simp
  have h4: "sizeX (board (newGame 4 4 3 3 True)) \<ge> arg_len (bag\<lparr>arg_len := 4\<rparr>)" by code_simp
  have h5: "winLength (newGame 4 4 3 3 True) = 3" by code_simp
  show ?thesis
    using h1 h2 h3 h4 h5
      updateGameConfig_winLength [OF h1 h2, of "bag\<lparr>arg_len := 5\<rparr>" NotDefined]
      updateGameConfig_winLength [OF h1 h2, of "bag\<lparr>arg_len := 4\<rparr>" NotDefined]
    by blast
qed

text \<open>
  Claim C6. When the gate is open, \<open>updateGameConfig\<close> with the selector \<open>SIZE\<close> and the
  dimensions \<open>x\<close> and \<open>y\<close> returns true, resizes the board to \<open>(x, y)\<close>, sets
  \<open>winLength\<close> to \<open>min x y\<close> if one of the new dimensions is smaller than the current
  \<open>winLength\<close> and leaves it as it was otherwise; no other field changes, and afterwards
  \<open>winLength\<close> is at most \<open>min x y\<close>.
\<close>

theorem updateGameConfig_size:
  assumes "state g \<noteq> ONGOING" and "totalGamesPlayed g \<le> 0"
  shows "updateGameConfig env SIZE arg g
           = Inr (True, g\<lparr>board := updateSize (board g) (arg_x arg) (arg_y arg),
                          winLength := (if arg_x arg < winLength g \<or> arg_y arg < winLength g
                                        then min (arg_x arg) (arg_y arg) else winLength g)\<rparr>)
         \<and> getSize (updateSize (board g) (arg_x arg) (arg_y arg)) = (arg_x arg, arg_y arg)
         \<and> (if arg_x arg < winLength g \<or> arg_y arg < winLength g
              then min (arg_x arg) (arg_y arg) else winLength g) \<le> min (arg_x arg) (arg_y arg)"
  using assms
  by (auto simp: updateGameConfig_def updateProp_size_def Let_def updateSize_def getSize_def min_def)

theorem updateGameConfig_size_witness:
  "state (newGame 5 5 4 3 True) \<noteq> ONGOING
   \<and> totalGamesPlayed (newGame 5 5 4 3 True) \<le> 0
   \<and> updateGameConfig NotDefined SIZE (bag\<lparr>arg_x := 3, arg_y := 6\<rparr>) (newGame 5 5 4 3 True)
       = Inr (True, (newGame 5 5 4 3 True)
                \<lparr>board := updateSize (board (newGame 5 5 4 3 True)) 3 6, winLength := 3\<rparr>)"
proof -
  have h1: "state (newGame 5 5 4 3 True) \<noteq> ONGOING" by code_simp
  have h2: "totalGamesPlayed (newGame 5 5 4 3 True) \<le> 0" by code_simp
  have h3: "arg_x (bag\<lparr>arg_x := 3, arg_y := 6\<rparr>) = 3" "arg_y (bag\<lparr>arg_x := 3, arg_y := 6\<rparr>) = 6"
    "winLength (newGame 5 5 4 3 True) = 4" by code_simp+
  show ?thesis
    using h1 h2 updateGameConfig_size [OF h1 h2, of NotDefined "bag\<lparr>arg_x := 3, arg_y := 6\<rparr>"]
    unfolding h3 by simp
qed

text \<open>
  Claim C7. The claim is that a \<open>NUM_PIECES\<close> update on an open gate returns true and sets
  \<open>numPieces\<close> whenever the board has at least \<open>num\<close> cells, and never throws. The setter
  calls \<^verbatim>\<open>game.updateNumPiecesEachPlayer(num)\<close>, not \<^verbatim>\<open>this.updateNumPiecesEachPlayer(num)\<close>.
  On a freshly constructed 3 by 3 Game, in a program that defines no global \<^verbatim>\<open>game\<close>, the
  update to 4 pieces (the board has 9 cells) throws a ReferenceError and \<open>numPieces\<close>
  stays 3.
\<close>

theorem updateGameConfig_numPieces_throws:
  "updateGameConfig NotDefined NUM_PIECES bag (newGame 3 3 3 3 True) = Inl ReferenceError
   \<and> arg_num bag = 4 \<and> numPieces (newGame 3 3 3 3 True) = 3"
  by (simp add: updateGameConfig_def updateProp_numPieces_def newGame_def newBoard_def
        getSize_def bag_def)

text \<open>
  The update does what the claim says when the identifier \<^verbatim>\<open>game\<close> happens to name the
  Game that receives the call.
\<close>

lemma updateGameConfig_numPieces_bound_to_this:
  assumes "state g \<noteq> ONGOING" and "totalGamesPlayed g \<le> 0"
  shows "updateGameConfig ThisGame NUM_PIECES arg g
           = (if sizeX (board g) * sizeY (board g) \<ge> arg_num arg
              then Inr (True, g\<lparr>numPieces := arg_num arg\<rparr>) else Inr (False, g))"
  using assms
  by (simp add: updateGameConfig_def updateProp_numPieces_def getSize_def
        updateNumPiecesEachPlayer_def)

section \<open>The winning length and the board\<close>

lemma readyGame_dims:
  "winLength (readyGame g) = winLength g \<and> sizeX (board (readyGame g)) = sizeX (board g)
   \<and> sizeY (board (readyGame g)) = sizeY (board g)"
  by (simp add: readyGame_def Let_def onPlayer_def resetBoard_def split: PlayerRef.splits)

lemma updateGameStateByLastMove_dims:
  "winLength (updateGameStateByLastMove detect px py g) = winLength g
   \<and> board (updateGameStateByLastMove detect px py g) = board g"
  by (simp add: updateGameStateByLastMove_def Let_def onPlayer_def swapTurns_def
        split: option.splits PlayerRef.splits)

lemma playerMakeMove_dims:
  "winLength (snd (playerMakeMove px py g)) = winLength g
   \<and> sizeX (board (snd (playerMakeMove px py g))) = sizeX (board g)
   \<and> sizeY (board (snd (playerMakeMove px py g))) = sizeY (board g)"
  by (simp add: playerMakeMove_def Let_def onPlayer_def placeMark_size split: PlayerRef.splits)

lemma numPieces_dims:
  "winLength (case updateProp_numPieces env num g of Inl _ \<Rightarrow> g | Inr (_, g') \<Rightarrow> g')
     = winLength g
   \<and> board (case updateProp_numPieces env num g of Inl _ \<Rightarrow> g | Inr (_, g') \<Rightarrow> g')
     = board g"
  by (cases env) (simp_all add: updateProp_numPieces_def updateNumPiecesEachPlayer_def)

lemma exec_config_closed:
  "\<not> (state g \<noteq> ONGOING \<and> totalGamesPlayed g \<le> 0)
   \<Longrightarrow> exec env detect (OpUpdateGameConfig sel a) g = g"
  by (auto simp: updateGameConfig_def)

lemma exec_config_size:
  "state g \<noteq> ONGOING \<and> totalGamesPlayed g \<le> 0
   \<Longrightarrow> exec env detect (OpUpdateGameConfig SIZE a) g = snd (updateProp_size (arg_x a) (arg_y a) g)"
  by (simp add: updateGameConfig_def split: prod.splits)

lemma exec_config_winLength:
  "state g \<noteq> ONGOING \<and> totalGamesPlayed g \<le> 0
   \<Longrightarrow> exec env detect (OpUpdateGameConfig WIN_LENGTH a) g = snd (updateProp_winLength (arg_len a) g)"
  by (simp add: updateGameConfig_def split: prod.splits)

lemma exec_config_other:
  assumes "sel \<noteq> SIZE" and "sel \<noteq> WIN_LENGTH"
  shows "winLength (exec env detect (OpUpdateGameConfig sel a) g) = winLength g
         \<and> board (exec env detect (OpUpdateGameConfig sel a) g) = board g"
proof (cases "state g \<noteq> ONGOING \<and> totalGamesPlayed g \<le> 0")
  case False
  then show ?thesis using exec_config_closed [of g env detect sel a] by simp
next
  case True
  show ?thesis
  proof (cases sel)
    case NUM_PIECES
    then show ?thesis
      using True numPieces_dims [where env = env and num = "arg_num a" and g = g]
      by (simp add: updateGameConfig_def)
  qed (use assms True in
        \<open>simp_all add: updateGameConfig_def updateProp_isLimitedPieces_def
           updateProp_isFifoOrder_def\<close>)
qed

text \<open>
  Every step other than the two \<open>size\<close> and the two \<open>winLength\<close> updates leaves
  \<open>winLength\<close> and the size of the board as they were.
\<close>

lemma exec_same_dims:
  assumes "\<forall>a. c \<noteq> OpUpdateGameConfig SIZE a" and "\<forall>a. c \<noteq> OpUpdateGameConfig WIN_LENGTH a"
    and "\<forall>x0 y0. c \<noteq> OpUpdateProp_size x0 y0" and "\<forall>len. c \<noteq> OpUpdateProp_winLength len"
  shows "winLength (exec env detect c g) = winLength g
         \<and> sizeX (board (exec env detect c g)) = sizeX (board g)
         \<and> sizeY (board (exec env detect c g)) = sizeY (board g)"
proof (cases c)
  case (OpUpdateGameConfig sel a0)
  with assms have "sel \<noteq> SIZE" "sel \<noteq> WIN_LENGTH" by auto
  then show ?thesis
    using exec_config_other [of sel env detect a0 g] OpUpdateGameConfig by simp
next
  case (OpUpdateProp_numPieces num)
  then show ?thesis
    using numPieces_dims [where env = env and num = num and g = g] by simp
qed (use assms in
      \<open>simp_all add: updateNumPiecesEachPlayer_def readyGame_dims resetMatch_def Let_def
         startGame_def nextGame_def swapFirstTurn_def swapTurns_def
         updateGameStateByLastMove_dims playerMakeMove_dims
         updateProp_isLimitedPieces_def updateProp_isFifoOrder_def\<close>)

lemma exec_same_dims_never_raises:
  assumes "\<forall>a. c \<noteq> OpUpdateGameConfig WIN_LENGTH a" and "\<forall>len. c \<noteq> OpUpdateProp_winLength len"
  shows "\<not> raisesWinLength c g"
proof (cases c)
  case (OpUpdateGameConfig sel a0)
  with assms(1) have "sel \<noteq> WIN_LENGTH" by auto
  then show ?thesis using OpUpdateGameConfig by (cases sel) simp_all
qed (use assms in simp_all)

lemma size_fitsBoth:
  "fitsBothDimensions (snd (updateProp_size bx by g))"
  by (auto simp: updateProp_size_def fitsBothDimensions_def updateSize_def Let_def)

lemma fitsBoth_fitsOne: "fitsBothDimensions g \<Longrightarrow> fitsOneDimension g"
  by (auto simp: fitsBothDimensions_def fitsOneDimension_def)

lemma winLength_fitsOne:
  "fitsOneDimension g \<Longrightarrow> fitsOneDimension (snd (updateProp_winLength len g))"
  by (auto simp: updateProp_winLength_def fitsOneDimension_def getSize_def)

lemma winLength_fitsBoth:
  "fitsBothDimensions g
   \<Longrightarrow> fitsBothDimensions (snd (updateProp_winLength len g)) \<longleftrightarrow> \<not> between len g"
  by (auto simp: updateProp_winLength_def fitsBothDimensions_def between_def getSize_def)

lemma op_kinds:
  obtains (config_size) a where "c = OpUpdateGameConfig SIZE a"
    | (config_winLength) a where "c = OpUpdateGameConfig WIN_LENGTH a"
    | (direct_size) x0 y0 where "c = OpUpdateProp_size x0 y0"
    | (direct_winLength) len where "c = OpUpdateProp_winLength len"
    | (other) "\<forall>a. c \<noteq> OpUpdateGameConfig SIZE a" "\<forall>a. c \<noteq> OpUpdateGameConfig WIN_LENGTH a"
        "\<forall>x0 y0. c \<noteq> OpUpdateProp_size x0 y0" "\<forall>len. c \<noteq> OpUpdateProp_winLength len"
  by blast

lemma exec_fitsOne:
  assumes "fitsOneDimension g"
  shows "fitsOneDimension (exec env detect c g)"
proof (cases c rule: op_kinds)
  case (config_size a)
  then show ?thesis
    using assms exec_config_closed [of g env detect SIZE a] exec_config_size [of g env detect a]
      size_fitsBoth [of "arg_x a" "arg_y a" g] fitsBoth_fitsOne
    by (cases "state g \<noteq> ONGOING \<and> totalGamesPlayed g \<le> 0") auto
next
  case (config_winLength a)
  then show ?thesis
    using assms exec_config_closed [of g env detect WIN_LENGTH a]
      exec_config_winLength [of g env detect a] winLength_fitsOne [of g "arg_len a"]
    by (cases "state g \<noteq> ONGOING \<and> totalGamesPlayed g \<le> 0") auto
next
  case (direct_size x0 y0)
  then show ?thesis using size_fitsBoth [of x0 y0 g] fitsBoth_fitsOne by simp
next
  case (direct_winLength len)
  then show ?thesis using assms winLength_fitsOne [of g len] by simp
next
  case other
  then show ?thesis
    using exec_same_dims [of c env detect g] assms by (simp add: fitsOneDimension_def)
qed

lemma exec_fitsBoth:
  assumes "fitsBothDimensions g"
  shows "fitsBothDimensions (exec env detect c g) \<longleftrightarrow> \<not> raisesWinLength c g"
proof (cases c rule: op_kinds)
  case (config_size a)
  then show ?thesis
    using assms exec_config_closed [of g env detect SIZE a] exec_config_size [of g env detect a]
      size_fitsBoth [of "arg_x a" "arg_y a" g]
    by (cases "state g \<noteq> ONGOING \<and> totalGamesPlayed g \<le> 0") auto
next
  case (config_winLength a)
  show ?thesis
  proof (cases "state g \<noteq> ONGOING \<and> totalGamesPlayed g \<le> 0")
    case True
    then show ?thesis
      using config_winLength assms exec_config_winLength [of g env detect a]
        winLength_fitsBoth [of g "arg_len a"]
      by simp
  next
    case False
    then show ?thesis
      using config_winLength assms exec_config_closed [of g env detect WIN_LENGTH a]
      by auto
  qed
next
  case (direct_size x0 y0)
  then show ?thesis using size_fitsBoth [of x0 y0 g] by simp
next
  case (direct_winLength len)
  then show ?thesis using assms winLength_fitsBoth [of g len] by simp
next
  case other
  then show ?thesis
    using exec_same_dims [of c env detect g] exec_same_dims_never_raises [of c g] assms
    by (simp add: fitsBothDimensions_def)
qed

lemma run_fitsOne:
  "fitsOneDimension g \<Longrightarrow> fitsOneDimension (run env detect ops g)"
  by (induction ops arbitrary: g) (simp_all add: exec_fitsOne)

lemma run_fitsBoth:
  "fitsBothDimensions g \<Longrightarrow> neverRaises env detect ops g
   \<Longrightarrow> fitsBothDimensions (run env detect ops g)"
  by (induction ops arbitrary: g) (simp_all add: exec_fitsBoth)

text \<open>
  Claim C4, as amended. The claim is that \<open>winLength\<close> never exceeds either board
  dimension. The \<open>winLength\<close> setter accepts a length that one dimension accommodates, so
  what every sequence of operations preserves, the setters of \<^verbatim>\<open>updateProp()\<close> called
  directly included, is that \<open>winLength\<close> does not exceed the larger board dimension.
  From a Game in which \<open>winLength\<close> does not exceed the smaller dimension, a single
  operation leaves it so if and only if it is not an applied \<open>winLength\<close> update with a
  length above the smaller dimension; so a sequence of operations none of which is such an
  update leaves it so.
\<close>

theorem winLength_fits_a_dimension:
  "(fitsOneDimension g \<longrightarrow> fitsOneDimension (run env detect ops g))
   \<and> (fitsBothDimensions g \<and> neverRaises env detect ops g
        \<longrightarrow> fitsBothDimensions (run env detect ops g))
   \<and> (fitsBothDimensions g
        \<longrightarrow> fitsBothDimensions (exec env detect c g) = (\<not> raisesWinLength c g))"
  using run_fitsOne [of g env detect ops] run_fitsBoth [of g env detect ops]
    exec_fitsBoth [of g env detect c]
  by blast

theorem winLength_fits_a_dimension_witness:
  "fitsOneDimension (newGame 3 5 3 3 True)
   \<and> fitsOneDimension
       (run NotDefined winnerCheckingSlidingWindow
          [OpUpdateGameConfig WIN_LENGTH (bag\<lparr>arg_len := 5\<rparr>), OpStartGame,
           OpUpdateProp_winLength 4, OpPlayerMakeMove 0 0]
          (newGame 3 5 3 3 True))
   \<and> fitsBothDimensions (newGame 3 5 3 3 True)
   \<and> neverRaises NotDefined winnerCheckingSlidingWindow
        [OpUpdateGameConfig WIN_LENGTH (bag\<lparr>arg_len := 2\<rparr>),
         OpUpdateGameConfig WIN_LENGTH (bag\<lparr>arg_len := 6\<rparr>),
         OpUpdateGameConfig SIZE (bag\<lparr>arg_x := 2, arg_y := 4\<rparr>), OpStartGame,
         OpUpdateGameConfig WIN_LENGTH (bag\<lparr>arg_len := 4\<rparr>), OpPlayerMakeMove 0 0]
        (newGame 3 5 3 3 True)
   \<and> fitsBothDimensions
       (run NotDefined winnerCheckingSlidingWindow
          [OpUpdateGameConfig WIN_LENGTH (bag\<lparr>arg_len := 2\<rparr>),
           OpUpdateGameConfig WIN_LENGTH (bag\<lparr>arg_len := 6\<rparr>),
           OpUpdateGameConfig SIZE (bag\<lparr>arg_x := 2, arg_y := 4\<rparr>), OpStartGame,
           OpUpdateGameConfig WIN_LENGTH (bag\<lparr>arg_len := 4\<rparr>), OpPlayerMakeMove 0 0]
          (newGame 3 5 3 3 True))
   \<and> raisesWinLength (OpUpdateProp_winLength 5) (newGame 3 5 3 3 True)
   \<and> \<not> fitsBothDimensions
         (exec NotDefined winnerCheckingSlidingWindow (OpUpdateProp_winLength 5)
            (newGame 3 5 3 3 True))
   \<and> \<not> raisesWinLength (OpUpdateProp_winLength 3) (newGame 3 5 3 3 True)
   \<and> fitsBothDimensions
       (exec NotDefined winnerCheckingSlidingWindow (OpUpdateProp_winLength 3)
          (newGame 3 5 3 3 True))"
proof -
  have h1: "fitsOneDimension (newGame 3 5 3 3 True)" by code_simp
  have h2: "fitsBothDimensions (newGame 3 5 3 3 True)" by code_simp
  have h3: "neverRaises NotDefined winnerCheckingSlidingWindow
        [OpUpdateGameConfig WIN_LENGTH (bag\<lparr>arg_len := 2\<rparr>),
         OpUpdateGameConfig WIN_LENGTH (bag\<lparr>arg_len := 6\<rparr>),
         OpUpdateGameConfig SIZE (bag\<lparr>arg_x := 2, arg_y := 4\<rparr>), OpStartGame,
         OpUpdateGameConfig WIN_LENGTH (bag\<lparr>arg_len := 4\<rparr>), OpPlayerMakeMove 0 0]
        (newGame 3 5 3 3 True)"
    by code_simp
  have h4: "raisesWinLength (OpUpdateProp_winLength 5) (newGame 3 5 3 3 True)" by code_simp
  have h5: "\<not> raisesWinLength (OpUpdateProp_winLength 3) (newGame 3 5 3 3 True)" by code_simp
  show ?thesis
    using h1 h2 h3 h4 h5
      winLength_fits_a_dimension [of "newGame 3 5 3 3 True" NotDefined winnerCheckingSlidingWindow
        "[OpUpdateGameConfig WIN_LENGTH (bag\<lparr>arg_len := 5\<rparr>), OpStartGame,
          OpUpdateProp_winLength 4, OpPlayerMakeMove 0 0]"]
      winLength_fits_a_dimension [of "newGame 3 5 3 3 True" NotDefined winnerCheckingSlidingWindow
        "[OpUpdateGameConfig WIN_LENGTH (bag\<lparr>arg_len := 2\<rparr>),
          OpUpdateGameConfig WIN_LENGTH (bag\<lparr>arg_len := 6\<rparr>),
          OpUpdateGameConfig SIZE (bag\<lparr>arg_x := 2, arg_y := 4\<rparr>), OpStartGame,
          OpUpdateGameConfig WIN_LENGTH (bag\<lparr>arg_len := 4\<rparr>), OpPlayerMakeMove 0 0]"
        "OpUpdateProp_winLength 5"]
      winLength_fits_a_dimension [of "newGame 3 5 3 3 True" NotDefined winnerCheckingSlidingWindow
        "[]" "OpUpdateProp_winLength 3"]
    by blast
qed

text \<open>
  Claim C4 as stated fails: on a 3 by 5 board with \<open>winLength\<close> 3, the update of
  \<open>WIN_LENGTH\<close> to 5 is accepted, and \<open>winLength\<close> is then above the smaller dimension.
\<close>

theorem winLength_above_smaller_dimension:
  "fitsBothDimensions (newGame 3 5 3 3 True)
   \<and> updateGameConfig NotDefined WIN_LENGTH (bag\<lparr>arg_len := 5\<rparr>) (newGame 3 5 3 3 True)
       = Inr (True, (newGame 3 5 3 3 True)\<lparr>winLength := 5\<rparr>)
   \<and> \<not> fitsBothDimensions ((newGame 3 5 3 3 True)\<lparr>winLength := 5\<rparr>)"
  by (simp add: fitsBothDimensions_def updateGameConfig_def updateProp_winLength_def
        getSize_def newGame_def newBoard_def bag_def)

section \<open>Preparing a game\<close>

text \<open>
  Claim C9. \<open>readyGame\<close> clears the board, makes the first-turn player the current player,
  resets \<open>winner\<close> to \<open>NONE\<close> and \<open>winCells\<close> to the empty list, and clears the move
  history of the first-turn player and of no one else: the other player is left as it was,
  and so are both scores, \<open>totalGamesPlayed\<close> and \<open>firstTurnPlayer\<close>. The state it
  leaves is \<open>READY\<close>.
\<close>

theorem readyGame_effect:
  "board (readyGame g) = resetBoard (board g)
   \<and> (\<forall>p. cells (board (readyGame g)) p = NONE)
   \<and> currentPlayer (readyGame g) = firstTurnPlayer g
   \<and> winner (readyGame g) = RoleValue NONE
   \<and> winCells (readyGame g) = []
   \<and> getPlayer (readyGame g) (firstTurnPlayer g)
       = (getPlayer g (firstTurnPlayer g))\<lparr>moveHistory := []\<rparr>
   \<and> (\<forall>r. r \<noteq> firstTurnPlayer g \<longrightarrow> getPlayer (readyGame g) r = getPlayer g r)
   \<and> score (player1 (readyGame g)) = score (player1 g)
   \<and> score (player2 (readyGame g)) = score (player2 g)
   \<and> totalGamesPlayed (readyGame g) = totalGamesPlayed g
   \<and> firstTurnPlayer (readyGame g) = firstTurnPlayer g
   \<and> state (readyGame g) = READY"
  by (cases "firstTurnPlayer g")
     (auto simp: readyGame_def Let_def onPlayer_def getPlayer_def resetBoard_def
        resetPlayerMoveHistory_def split: PlayerRef.splits)

theorem readyGame_effect_witness:
  "firstTurnPlayer scenarioA = PLAYER1
   \<and> moveHistory (player1 scenarioA) = [(0, 0), (0, 1), (0, 2)]
   \<and> moveHistory (player2 scenarioA) = [(1, 0), (1, 1)]
   \<and> moveHistory (player1 (readyGame scenarioA)) = []
   \<and> player2 (readyGame scenarioA) = player2 scenarioA"
proof -
  have h: "firstTurnPlayer scenarioA = PLAYER1"
    "moveHistory (player1 scenarioA) = [(0, 0), (0, 1), (0, 2)]"
    "moveHistory (player2 scenarioA) = [(1, 0), (1, 1)]" by code_simp+
  have "PLAYER2 \<noteq> firstTurnPlayer scenarioA" using h(1) by simp
  then show ?thesis
    using h readyGame_effect [of scenarioA] by (auto simp: getPlayer_def)
qed

section \<open>Moves\<close>

text \<open>
  Claim C8. \<open>playerMakeMove\<close> returns false and leaves the whole Game as it was, board and
  move histories included, when the state is not \<open>ONGOING\<close> or the Board rejects the
  placement, which it does for a cell that is outside the grid or occupied. When the state
  is \<open>ONGOING\<close> and the Board accepts the placement, it returns true, appends the
  coordinate to the move history of the current player, leaves the other player as it was
  and holds the current player's role in the cell.
\<close>

theorem playerMakeMove_contract:
  "(state g \<noteq> ONGOING \<or> \<not> fst (placeMark (board g) px py (role (getCurrentPlayer g)))
      \<longrightarrow> playerMakeMove px py g = (False, g))
   \<and> (\<not> inBounds (board g) px py \<or> cells (board g) (px, py) \<noteq> NONE
      \<longrightarrow> playerMakeMove px py g = (False, g))
   \<and> (state g = ONGOING \<and> fst (placeMark (board g) px py (role (getCurrentPlayer g)))
      \<longrightarrow> fst (playerMakeMove px py g) = True
        \<and> moveHistory (getCurrentPlayer (snd (playerMakeMove px py g)))
            = moveHistory (getCurrentPlayer g) @ [(px, py)]
        \<and> currentPlayer (snd (playerMakeMove px py g)) = currentPlayer g
        \<and> (\<forall>r. r \<noteq> currentPlayer g
              \<longrightarrow> getPlayer (snd (playerMakeMove px py g)) r = getPlayer g r)
        \<and> cells (board (snd (playerMakeMove px py g)))
            = (cells (board g))((px, py) := role (getCurrentPlayer g)))"
  by (cases "currentPlayer g")
     (auto simp: playerMakeMove_def placeMark_def Let_def onPlayer_def getCurrentPlayer_def
        getPlayer_def updatePlayerMove_def split: PlayerRef.splits)

theorem playerMakeMove_contract_witness:
  "state (newGame 3 3 3 3 True) \<noteq> ONGOING
   \<and> playerMakeMove 0 0 (newGame 3 3 3 3 True) = (False, newGame 3 3 3 3 True)
   \<and> state opening_last = ONGOING
   \<and> cells (board opening_last) (1, 1) \<noteq> NONE
   \<and> playerMakeMove 1 1 opening_last = (False, opening_last)
   \<and> \<not> inBounds (board opening_last) 3 0
   \<and> playerMakeMove 3 0 opening_last = (False, opening_last)
   \<and> fst (placeMark (board opening_last) 0 2 (role (getCurrentPlayer opening_last)))
   \<and> fst (playerMakeMove 0 2 opening_last) = True
   \<and> moveHistory (getCurrentPlayer opening_last) = [(1, 1)]
   \<and> moveHistory (getCurrentPlayer (snd (playerMakeMove 0 2 opening_last))) = [(1, 1), (0, 2)]"
proof -
  have h1: "state (newGame 3 3 3 3 True) \<noteq> ONGOING" by code_simp
  have h2: "state opening_last = ONGOING" by code_simp
  have h3: "cells (board opening_last) (1, 1) \<noteq> NONE" by code_simp
  have h4: "\<not> inBounds (board opening_last) 3 0" by code_simp
  have h5: "fst (placeMark (board opening_last) 0 2 (role (getCurrentPlayer opening_last)))"
    by code_simp
  have h6: "moveHistory (getCurrentPlayer opening_last) = [(1, 1)]" by code_simp
  show ?thesis
    using h1 h2 h3 h4 h5 h6
      playerMakeMove_contract [of "newGame 3 3 3 3 True" 0 0]
      playerMakeMove_contract [of opening_last 1 1]
      playerMakeMove_contract [of opening_last 3 0]
      playerMakeMove_contract [of opening_last 0 2]
    by simp
qed

section \<open>The outcome of a move\<close>

text \<open>
  Claim C2. The claim is that a win sets \<open>winner\<close> to the mover's Role. The win branch
  assigns \<^verbatim>\<open>this.winner = this.currentPlayer\<close>: after scenario A the field holds the
  Player object of player 1, which is not the Role \<open>P1\<close>. The rest of the scenario is as
  the claim says: the winning cells, the score, the count of games and the state.
\<close>

theorem scenarioA_winner_is_a_player_object:
  "winner scenarioA = PlayerObject PLAYER1
   \<and> winner scenarioA \<noteq> RoleValue P1
   \<and> winCells scenarioA = [(0, 0), (0, 1), (0, 2)]
   \<and> score (player1 scenarioA) = 1
   \<and> totalGamesPlayed scenarioA = 1
   \<and> state scenarioA = FINISHED"
  by code_simp

text \<open>The win branch in general, for every detector that reports a line.\<close>

lemma updateGameStateByLastMove_win:
  assumes "checkWinner detect posX posY g = Some line"
  shows "updateGameStateByLastMove detect posX posY g
           = (onPlayer (currentPlayer g) (addScore 1) g)
               \<lparr>winner := PlayerObject (currentPlayer g), winCells := line,
                totalGamesPlayed := totalGamesPlayed g + 1, state := FINISHED\<rparr>"
  using assms
  by (cases "currentPlayer g") (simp_all add: updateGameStateByLastMove_def Let_def onPlayer_def)

text \<open>
  Claim C3. When the detector finds no line for the last move: if the board has a playable
  square, the current player becomes the other of the two players, the state is
  \<open>ONGOING\<close>, and \<open>totalGamesPlayed\<close>, \<open>winner\<close> and both scores are as they were;
  if it has none, \<open>winner\<close> is \<open>NONE\<close>, each score grows by one half,
  \<open>totalGamesPlayed\<close> grows by one and the state is \<open>FINISHED\<close>.
\<close>

theorem updateGameStateByLastMove_no_line:
  assumes "checkWinner detect posX posY g = None"
    and "g' = updateGameStateByLastMove detect posX posY g"
  shows "(hasPlayableSquares (board g)
            \<longrightarrow> currentPlayer g' \<noteq> currentPlayer g
              \<and> currentPlayer g' = (if currentPlayer g = PLAYER1 then PLAYER2 else PLAYER1)
              \<and> state g' = ONGOING
              \<and> totalGamesPlayed g' = totalGamesPlayed g
              \<and> winner g' = winner g
              \<and> score (player1 g') = score (player1 g)
              \<and> score (player2 g') = score (player2 g))
         \<and> (\<not> hasPlayableSquares (board g)
            \<longrightarrow> winner g' = RoleValue NONE
              \<and> score (player1 g') = score (player1 g) + 1 / 2
              \<and> score (player2 g') = score (player2 g) + 1 / 2
              \<and> totalGamesPlayed g' = totalGamesPlayed g + 1
              \<and> state g' = FINISHED)"
  using assms
  by (simp add: updateGameStateByLastMove_def checkValidMoves_def swapTurns_def Let_def
        addScore_def)

theorem updateGameStateByLastMove_no_line_witness:
  "checkWinner winnerCheckingSlidingWindow 1 1 opening_last = None
   \<and> hasPlayableSquares (board opening_last)
   \<and> currentPlayer opening_last = PLAYER1
   \<and> currentPlayer (updateGameStateByLastMove winnerCheckingSlidingWindow 1 1 opening_last)
       \<noteq> currentPlayer opening_last
   \<and> state (updateGameStateByLastMove winnerCheckingSlidingWindow 1 1 opening_last) = ONGOING
   \<and> checkWinner winnerCheckingSlidingWindow 2 2 scenarioB_last = None
   \<and> \<not> hasPlayableSquares (board scenarioB_last)
   \<and> winner (updateGameStateByLastMove winnerCheckingSlidingWindow 2 2 scenarioB_last)
       = RoleValue NONE
   \<and> score (player1 (updateGameStateByLastMove winnerCheckingSlidingWindow 2 2 scenarioB_last))
       = score (player1 scenarioB_last) + 1 / 2
   \<and> score (player2 (updateGameStateByLastMove winnerCheckingSlidingWindow 2 2 scenarioB_last))
       = score (player2 scenarioB_last) + 1 / 2
   \<and> totalGamesPlayed (updateGameStateByLastMove winnerCheckingSlidingWindow 2 2 scenarioB_last)
       = totalGamesPlayed scenarioB_last + 1
   \<and> state (updateGameStateByLastMove winnerCheckingSlidingWindow 2 2 scenarioB_last) = FINISHED"
proof -
  have a1: "checkWinner winnerCheckingSlidingWindow 1 1 opening_last = None" by code_simp
  have a2: "hasPlayableSquares (board opening_last)" by code_simp
  have a3: "currentPlayer opening_last = PLAYER1" by code_simp
  have b1: "checkWinner winnerCheckingSlidingWindow 2 2 scenarioB_last = None" by code_simp
  have b2: "\<not> hasPlayableSquares (board scenarioB_last)" by code_simp
  show ?thesis
    using a1 a2 a3 b1 b2
      updateGameStateByLastMove_no_line [OF a1 refl]
      updateGameStateByLastMove_no_line [OF b1 refl]
    by blast
qed

text \<open>
  Claim C10. \<open>updateGameStateByLastMove\<close> leaves \<open>currentPlayer\<close> as it was whenever it
  finishes the game, by a win or by a draw, and changes it only when no line was found and
  the board has a playable square, in which case play continues. After a win the current
  player is still the player who made the winning move, the one \<open>winner\<close> refers to.
\<close>

theorem currentPlayer_changes_only_when_play_continues:
  assumes "g' = updateGameStateByLastMove detect posX posY g"
  shows "(state g' = FINISHED \<longrightarrow> currentPlayer g' = currentPlayer g)
         \<and> (currentPlayer g' \<noteq> currentPlayer g
              \<longrightarrow> checkWinner detect posX posY g = None \<and> hasPlayableSquares (board g)
                \<and> state g' = ONGOING)
         \<and> (checkWinner detect posX posY g \<noteq> None
              \<longrightarrow> state g' = FINISHED \<and> currentPlayer g' = currentPlayer g
                \<and> winner g' = PlayerObject (currentPlayer g')
                \<and> role (getCurrentPlayer g') = role (getCurrentPlayer g))
         \<and> (checkWinner detect posX posY g = None \<and> \<not> hasPlayableSquares (board g)
              \<longrightarrow> state g' = FINISHED \<and> currentPlayer g' = currentPlayer g)"
  using assms
  by (cases "currentPlayer g")
     (auto simp: updateGameStateByLastMove_def checkValidMoves_def swapTurns_def Let_def
        onPlayer_def getCurrentPlayer_def getPlayer_def addScore_def split: option.splits)

theorem currentPlayer_changes_only_when_play_continues_witness:
  "checkWinner winnerCheckingSlidingWindow 0 2 scenarioA_last \<noteq> None
   \<and> currentPlayer scenarioA_last = PLAYER1
   \<and> state scenarioA = FINISHED
   \<and> currentPlayer scenarioA = currentPlayer scenarioA_last
   \<and> role (getCurrentPlayer scenarioA) = role (getCurrentPlayer scenarioA_last)
   \<and> checkWinner winnerCheckingSlidingWindow 2 2 scenarioB_last = None
   \<and> \<not> hasPlayableSquares (board scenarioB_last)
   \<and> state (updateGameStateByLastMove winnerCheckingSlidingWindow 2 2 scenarioB_last) = FINISHED
   \<and> currentPlayer (updateGameStateByLastMove winnerCheckingSlidingWindow 2 2 scenarioB_last)
       = currentPlayer scenarioB_last"
proof -
  have a1: "checkWinner winnerCheckingSlidingWindow 0 2 scenarioA_last \<noteq> None" by code_simp
  have a2: "currentPlayer scenarioA_last = PLAYER1" by code_simp
  have b1: "checkWinner winnerCheckingSlidingWindow 2 2 scenarioB_last = None" by code_simp
  have b2: "\<not> hasPlayableSquares (board scenarioB_last)" by code_simp
  show ?thesis
    using a1 a2 b1 b2
      currentPlayer_changes_only_when_play_continues [OF scenarioA_def]
      currentPlayer_changes_only_when_play_continues [OF refl,
        of winnerCheckingSlidingWindow 2 2 scenarioB_last]
    by blast
qed

end
